theory Spec2Isabelle
  imports Main "HOL-Library.Monad_Syntax"
begin

section \<open>Python strings and the library predicates the validators call\<close>

text \<open>
  A Python \<^verbatim>\<open>str\<close> is a sequence of Unicode code points and \<^verbatim>\<open>len\<close> counts code
  points, so a string is a list of code points and its length is the length of the list.
  String literals of the source are ASCII and are written as HOL strings, converted
  by \<open>str\<close>.
\<close>

type_synonym codepoint = nat
type_synonym str = "codepoint list"

definition ord :: "char \<Rightarrow> codepoint" where
  "ord ch = of_char ch"

definition str :: "string \<Rightarrow> str" where
  "str s = map ord s"

text \<open>
  Two predicates of the interpreter consult the Unicode character database, which is not
  part of the repository: \<^verbatim>\<open>str.isalnum\<close> and the regular-expression class \<^verbatim>\<open>\s\<close>.
  Their values on ASCII are fixed and written out below; for code points from 128 on the
  database is a parameter of the model.
\<close>

record unicode_db =
  uc_alnum :: "codepoint \<Rightarrow> bool"
  uc_space :: "codepoint \<Rightarrow> bool"

definition ascii_letter :: "codepoint \<Rightarrow> bool" where
  "ascii_letter c = ((ord CHR ''A'' \<le> c \<and> c \<le> ord CHR ''Z'') \<or> (ord CHR ''a'' \<le> c \<and> c \<le> ord CHR ''z''))"

definition ascii_digit :: "codepoint \<Rightarrow> bool" where
  "ascii_digit c = (ord CHR ''0'' \<le> c \<and> c \<le> ord CHR ''9'')"

definition char_isalnum :: "unicode_db \<Rightarrow> codepoint \<Rightarrow> bool" where
  "char_isalnum U c = (if c < 128 then ascii_letter c \<or> ascii_digit c else uc_alnum U c)"

text \<open>\<^verbatim>\<open>v.isalnum()\<close>: at least one character, and every character alphanumeric.\<close>

definition isalnum :: "unicode_db \<Rightarrow> str \<Rightarrow> bool" where
  "isalnum U v = (v \<noteq> [] \<and> list_all (char_isalnum U) v)"

text \<open>
  Whitespace as \<^verbatim>\<open>\s\<close> sees it in a \<^verbatim>\<open>str\<close> pattern: on ASCII the characters
  TAB, LF, VT, FF, CR, the separators 0x1C to 0x1F and the space.
\<close>

definition char_isspace :: "unicode_db \<Rightarrow> codepoint \<Rightarrow> bool" where
  "char_isspace U c =
     (if c < 128 then (9 \<le> c \<and> c \<le> 13) \<or> (28 \<le> c \<and> c \<le> 31) \<or> c = 32
      else uc_space U c)"

subsection \<open>The fragment of \<^verbatim>\<open>re\<close> that the validators use\<close>

text \<open>
  The patterns of the source are a bracketed character set, alone or repeated with
  \<^verbatim>\<open>+\<close>, and the anchors \<^verbatim>\<open>^\<close> and \<^verbatim>\<open>$\<close>. Without flags a range matches the
  code points between its ends, \<^verbatim>\<open>^\<close> matches at the start of the string only, and
  \<^verbatim>\<open>$\<close> matches at the end of the string or just before a newline that ends it.
\<close>

datatype set_item = Lit char | Range char char | Whitespace

type_synonym charset = "set_item list"

datatype node = Caret | Dollar | Set charset | SetPlus charset

type_synonym pattern = "node list"

fun in_item :: "unicode_db \<Rightarrow> set_item \<Rightarrow> codepoint \<Rightarrow> bool" where
  "in_item U (Lit ch) c = (c = ord ch)"
| "in_item U (Range lo hi) c = (ord lo \<le> c \<and> c \<le> ord hi)"
| "in_item U Whitespace c = char_isspace U c"

definition in_set :: "unicode_db \<Rightarrow> charset \<Rightarrow> codepoint \<Rightarrow> bool" where
  "in_set U cs c = list_ex (\<lambda>i. in_item U i c) cs"

text \<open>
  \<open>matches U p v at_start\<close>: the pattern \<open>p\<close> matches a prefix of the rest \<open>v\<close> of
  the subject; \<open>at_start\<close> tells whether \<open>v\<close> is the whole subject.
\<close>

fun matches :: "unicode_db \<Rightarrow> pattern \<Rightarrow> str \<Rightarrow> bool \<Rightarrow> bool" where
  "matches U [] v at_start = True"
| "matches U (Caret # p) v at_start = (at_start \<and> matches U p v at_start)"
| "matches U (Dollar # p) v at_start = ((v = [] \<or> v = [10]) \<and> matches U p v at_start)"
| "matches U (Set cs # p) [] at_start = False"
| "matches U (Set cs # p) (c # v) at_start = (in_set U cs c \<and> matches U p v False)"
| "matches U (SetPlus cs # p) [] at_start = False"
| "matches U (SetPlus cs # p) (c # v) at_start =
     (in_set U cs c \<and> (matches U (SetPlus cs # p) v False \<or> matches U p v False))"

definition re_match :: "unicode_db \<Rightarrow> pattern \<Rightarrow> str \<Rightarrow> bool" where
  "re_match U p v = matches U p v True"

fun search_from :: "unicode_db \<Rightarrow> pattern \<Rightarrow> str \<Rightarrow> bool \<Rightarrow> bool" where
  "search_from U p [] at_start = matches U p [] at_start"
| "search_from U p (c # v) at_start = (matches U p (c # v) at_start \<or> search_from U p v False)"

definition re_search :: "unicode_db \<Rightarrow> pattern \<Rightarrow> str \<Rightarrow> bool" where
  "re_search U p v = search_from U p v True"

section \<open>The validators of \<^verbatim>\<open>UserCreate\<close> (models.py)\<close>

datatype error = ValueError string

text \<open>The character sets of the source, item by item.\<close>

definition upper_set :: charset where
  "upper_set = [Range CHR ''A'' CHR ''Z'']"

definition lower_set :: charset where
  "lower_set = [Range CHR ''a'' CHR ''z'']"

definition digit_set :: charset where
  "digit_set = [Range CHR ''0'' CHR ''9'']"

definition special_set :: charset where
  "special_set = map Lit ''!@#$%^&*(),.?\":{}|<>''"

definition full_name_set :: charset where
  "full_name_set =
     [Range CHR ''A'' CHR ''Z'', Range CHR ''a'' CHR ''z'', Whitespace,
      Lit CHR ''-'', Lit CHR 0x27, Lit CHR ''.'']"

definition password_must_be_strong :: "unicode_db \<Rightarrow> str \<Rightarrow> error + str" where
  "password_must_be_strong U v =
     (if length v < 8 then
        Inl (ValueError ''Password must be at least 8 characters long'')
      else if \<not> re_search U [Set upper_set] v then
        Inl (ValueError ''Password must contain at least one uppercase letter'')
      else if \<not> re_search U [Set lower_set] v then
        Inl (ValueError ''Password must contain at least one lowercase letter'')
      else if \<not> re_search U [Set digit_set] v then
        Inl (ValueError ''Password must contain at least one number'')
      else if \<not> re_search U [Set special_set] v then
        Inl (ValueError ''Password must contain at least one special character'')
      else Inr v)"

definition username_must_be_alphanumeric :: "unicode_db \<Rightarrow> str \<Rightarrow> error + str" where
  "username_must_be_alphanumeric U v =
     (if \<not> isalnum U v then
        Inl (ValueError ''Username must be alphanumeric (letters and numbers only)'')
      else if length v < 3 then
        Inl (ValueError ''Username must be at least 3 characters long'')
      else if length v > 20 then
        Inl (ValueError ''Username must be at most 20 characters long'')
      else Inr v)"

definition full_name_must_be_proper_format :: "unicode_db \<Rightarrow> str option \<Rightarrow> error + str option" where
  "full_name_must_be_proper_format U v =
     (case v of
        None \<Rightarrow> Inr v
      | Some s \<Rightarrow>
          if \<not> re_match U [Caret, SetPlus full_name_set, Dollar] s then
            Inl (ValueError ''Full name can only contain letters, spaces, hyphens, apostrophes, and periods'')
          else if length s < 2 then
            Inl (ValueError ''Full name must be at least 2 characters long'')
          else if length s > 50 then
            Inl (ValueError ''Full name must be at most 50 characters long'')
          else Inr v)"

subsection \<open>The request model\<close>

text \<open>
  \<^verbatim>\<open>UserCreate\<close> has four fields. The type \<^verbatim>\<open>EmailStr\<close> of the field \<^verbatim>\<open>email\<close> is
  validated by a library that is not part of the repository; like the validators of this
  file it either raises or returns the value that the model keeps, so it is a parameter
  \<open>EmailStr\<close> of that type.

  Building the model validates every field, in the order of declaration, and gathers
  one error entry for each field whose validator raised; the model is built only when
  no field failed.
\<close>

record user_create =
  username :: str
  email :: str
  password :: str
  full_name :: "str option"

datatype line_error = LineError string error

fun loc :: "line_error \<Rightarrow> string" where
  "loc (LineError l e) = l"

definition field_errors :: "string \<Rightarrow> error + 'a \<Rightarrow> line_error list" where
  "field_errors l r = (case r of Inl e \<Rightarrow> [LineError l e] | Inr _ \<Rightarrow> [])"

definition UserCreate ::
  "unicode_db \<Rightarrow> (str \<Rightarrow> error + str) \<Rightarrow> user_create \<Rightarrow> line_error list + user_create" where
  "UserCreate U EmailStr data =
     (let r1 = username_must_be_alphanumeric U (username data);
          r2 = EmailStr (email data);
          r3 = password_must_be_strong U (password data);
          r4 = full_name_must_be_proper_format U (full_name data)
      in case (r1, r2, r3, r4) of
           (Inr u, Inr e, Inr p, Inr f) \<Rightarrow>
             Inr \<lparr>username = u, email = e, password = p, full_name = f\<rparr>
         | _ \<Rightarrow>
             Inl (field_errors ''username'' r1 @ field_errors ''email'' r2 @
                  field_errors ''password'' r3 @ field_errors ''full_name'' r4))"

section \<open>The handlers (main.py)\<close>

subsection \<open>Values, the clock and the storage\<close>

text \<open>
  Dictionaries of the source are association lists in the order in which the source
  writes their keys; \<open>JNull\<close> is \<^verbatim>\<open>None\<close>.
\<close>

datatype json = JNull | JBool bool | JInt int | JStr str | JObj "(string \<times> json) list"

type_synonym dict = "(string \<times> json) list"

definition optional :: "str option \<Rightarrow> json" where
  "optional v = (case v of None \<Rightarrow> JNull | Some s \<Rightarrow> JStr s)"

text \<open>
  \<^verbatim>\<open>datetime.now()\<close> reads the local clock; the reading is an argument of the handler.
  \<^verbatim>\<open>isoformat()\<close> of a datetime without time zone prints
  \<^verbatim>\<open>YYYY-MM-DDTHH:MM:SS\<close>, followed by \<^verbatim>\<open>.ffffff\<close> when the microseconds are not zero.
\<close>

record datetime =
  year :: nat
  month :: nat
  day :: nat
  hour :: nat
  minute :: nat
  second :: nat
  microsecond :: nat

function decimal :: "nat \<Rightarrow> str" where
  "decimal n =
     (if n < 10 then [ord CHR ''0'' + n]
      else decimal (n div 10) @ [ord CHR ''0'' + n mod 10])"
  by pat_completeness auto
termination
  by (relation "measure id") auto

declare decimal.simps [simp del]

definition zero_pad :: "nat \<Rightarrow> nat \<Rightarrow> str" where
  "zero_pad w n = replicate (w - length (decimal n)) (ord CHR ''0'') @ decimal n"

definition isoformat :: "datetime \<Rightarrow> str" where
  "isoformat d =
     zero_pad 4 (year d) @ str ''-'' @ zero_pad 2 (month d) @ str ''-'' @ zero_pad 2 (day d) @
     str ''T'' @
     zero_pad 2 (hour d) @ str '':'' @ zero_pad 2 (minute d) @ str '':'' @ zero_pad 2 (second d) @
     (if microsecond d = 0 then [] else str ''.'' @ zero_pad 6 (microsecond d))"

text \<open>
  \<^verbatim>\<open>fake_db\<close> is the list of the dictionaries appended so far. \<open>create_user\<close> is the
  body of the handler: it receives the validated model and the storage and returns the
  new storage with the dictionary it returns.
\<close>

definition create_user :: "datetime \<Rightarrow> dict list \<Rightarrow> user_create \<Rightarrow> dict list \<times> dict" where
  "create_user now fake_db user_data =
     (let db_user =
            [(''username'', JStr (username user_data)),
             (''email'', JStr (email user_data)),
             (''full_name'', optional (full_name user_data)),
             (''join_date'', JStr (isoformat now)),
             (''password'', JStr (password user_data)),
             (''validation_status'', JStr (str ''passed''))]
      in (fake_db @ [db_user], db_user))"

subsection \<open>The response model\<close>

text \<open>
  The route declares \<^verbatim>\<open>response_model=UserOut\<close>: the returned dictionary is validated
  against \<^verbatim>\<open>UserOut\<close>, which reads the keys of its five declared fields and ignores every
  other key, and the body of the response is that model written as an object.
\<close>

record user_out =
  out_username :: str
  out_email :: str
  out_full_name :: "str option"
  join_date :: str
  validation_status :: str

definition required_str :: "dict \<Rightarrow> string \<Rightarrow> str option" where
  "required_str d k = (case map_of d k of Some (JStr s) \<Rightarrow> Some s | _ \<Rightarrow> None)"

definition optional_str :: "dict \<Rightarrow> string \<Rightarrow> str option option" where
  "optional_str d k =
     (case map_of d k of
        None \<Rightarrow> Some None
      | Some JNull \<Rightarrow> Some None
      | Some (JStr s) \<Rightarrow> Some (Some s)
      | _ \<Rightarrow> None)"

definition default_str :: "dict \<Rightarrow> string \<Rightarrow> str \<Rightarrow> str option" where
  "default_str d k dflt =
     (case map_of d k of None \<Rightarrow> Some dflt | Some (JStr s) \<Rightarrow> Some s | _ \<Rightarrow> None)"

definition UserOut :: "(str \<Rightarrow> error + str) \<Rightarrow> dict \<Rightarrow> user_out option" where
  "UserOut EmailStr d =
     do {
       u \<leftarrow> required_str d ''username'';
       e0 \<leftarrow> required_str d ''email'';
       e \<leftarrow> (case EmailStr e0 of Inl _ \<Rightarrow> None | Inr e \<Rightarrow> Some e);
       f \<leftarrow> optional_str d ''full_name'';
       j \<leftarrow> required_str d ''join_date'';
       s \<leftarrow> default_str d ''validation_status'' (str ''passed'');
       Some \<lparr>out_username = u, out_email = e, out_full_name = f, join_date = j,
             validation_status = s\<rparr>
     }"

definition model_dump :: "user_out \<Rightarrow> dict" where
  "model_dump out =
     [(''username'', JStr (out_username out)),
      (''email'', JStr (out_email out)),
      (''full_name'', optional (out_full_name out)),
      (''join_date'', JStr (join_date out)),
      (''validation_status'', JStr (validation_status out))]"

subsection \<open>The routes\<close>

text \<open>
  A request whose model cannot be built is answered with the list of its errors and
  status 422 before the handler runs; a returned value that does not validate against
  the response model is a server error (status 500). A route takes the storage and
  returns the answer with the storage after the call.
\<close>

datatype http_error = RequestValidationError "line_error list" | ResponseValidationError

fun status_code :: "http_error \<Rightarrow> nat" where
  "status_code (RequestValidationError errs) = 422"
| "status_code ResponseValidationError = 500"

type_synonym response = "nat \<times> json"

definition post_users ::
  "unicode_db \<Rightarrow> (str \<Rightarrow> error + str) \<Rightarrow> datetime \<Rightarrow> dict list \<Rightarrow> user_create \<Rightarrow>
     (http_error + response) \<times> dict list" where
  "post_users U EmailStr now fake_db body =
     (case UserCreate U EmailStr body of
        Inl errs \<Rightarrow> (Inl (RequestValidationError errs), fake_db)
      | Inr user_data \<Rightarrow>
          (case create_user now fake_db user_data of
             (fake_db', db_user) \<Rightarrow>
               (case UserOut EmailStr db_user of
                  None \<Rightarrow> (Inl ResponseValidationError, fake_db')
                | Some out \<Rightarrow> (Inr (201, JObj (model_dump out)), fake_db'))))"

definition get_validation_rules :: "dict list \<Rightarrow> response \<times> dict list" where
  "get_validation_rules fake_db =
     ((200,
       JObj [
         (''password_rules'', JObj [
            (''min_length'', JInt 8),
            (''requires_uppercase'', JBool True),
            (''requires_lowercase'', JBool True),
            (''requires_number'', JBool True),
            (''requires_special_char'', JBool True)]),
         (''username_rules'', JObj [
            (''alphanumeric_only'', JBool True),
            (''min_length'', JInt 3),
            (''max_length'', JInt 20)]),
         (''full_name_rules'', JObj [
            (''allowed_characters'', JStr (str ''letters, spaces, hyphens, apostrophes, periods'')),
            (''min_length'', JInt 2),
            (''max_length'', JInt 50),
            (''optional'', JBool True)])]),
      fake_db)"

definition root :: "dict list \<Rightarrow> response \<times> dict list" where
  "root fake_db =
     ((200,
       JObj [
         (''message'', JStr (str ''FastAPI Advanced Validation Demo'')),
         (''endpoints'', JObj [
            (''create_user'', JStr (str ''POST /users/'')),
            (''validation_rules'', JStr (str ''GET /validation-rules/'')),
            (''interactive_docs'', JStr (str ''GET /docs''))])]),
      fake_db)"

section \<open>The rules in the words of the specification\<close>

text \<open>
  The character classes and rules as the specification names them, by code point:
  the uppercase Latin letters are U+0041 to U+005A, the lowercase ones U+0061 to U+007A,
  the decimal digits U+0030 to U+0039; hyphen, apostrophe and period are 45, 39 and 46.
\<close>

definition upper_latin :: "codepoint \<Rightarrow> bool" where
  "upper_latin c = (65 \<le> c \<and> c \<le> 90)"

definition lower_latin :: "codepoint \<Rightarrow> bool" where
  "lower_latin c = (97 \<le> c \<and> c \<le> 122)"

definition decimal_digit :: "codepoint \<Rightarrow> bool" where
  "decimal_digit c = (48 \<le> c \<and> c \<le> 57)"

definition special_char :: "codepoint \<Rightarrow> bool" where
  "special_char c = (c \<in> set (str ''!@#$%^&*(),.?\":{}|<>''))"

datatype password_rule = MinLength | Uppercase | Lowercase | Digit | Special

fun satisfies :: "password_rule \<Rightarrow> str \<Rightarrow> bool" where
  "satisfies MinLength v = (8 \<le> length v)"
| "satisfies Uppercase v = (\<exists>c\<in>set v. upper_latin c)"
| "satisfies Lowercase v = (\<exists>c\<in>set v. lower_latin c)"
| "satisfies Digit v = (\<exists>c\<in>set v. decimal_digit c)"
| "satisfies Special v = (\<exists>c\<in>set v. special_char c)"

fun rule_message :: "password_rule \<Rightarrow> string" where
  "rule_message MinLength = ''Password must be at least 8 characters long''"
| "rule_message Uppercase = ''Password must contain at least one uppercase letter''"
| "rule_message Lowercase = ''Password must contain at least one lowercase letter''"
| "rule_message Digit = ''Password must contain at least one number''"
| "rule_message Special = ''Password must contain at least one special character''"

text \<open>
  The characters a full name may contain: the letters of the pattern (the Latin letters
  \<^verbatim>\<open>A-Z\<close> and \<^verbatim>\<open>a-z\<close>), whitespace, hyphen, apostrophe, period.
\<close>

definition full_name_char :: "unicode_db \<Rightarrow> codepoint \<Rightarrow> bool" where
  "full_name_char U c =
     (upper_latin c \<or> lower_latin c \<or> char_isspace U c \<or> c = 45 \<or> c = 39 \<or> c = 46)"

subsection \<open>The create-user operation in the words of the specification\<close>

text \<open>
  A request is accepted when none of the four field validators raises. \<open>db_record\<close> is
  the record that the specification describes for a validated request: its four fields,
  the clock reading in ISO format, and the status \<^verbatim>\<open>passed\<close>. \<open>rejected_fields\<close> lists,
  in the order of declaration, the fields whose validator raises.
\<close>

definition accepted :: "unicode_db \<Rightarrow> (str \<Rightarrow> error + str) \<Rightarrow> user_create \<Rightarrow> bool" where
  "accepted U EmailStr body =
     (\<not> isl (username_must_be_alphanumeric U (username body)) \<and> \<not> isl (EmailStr (email body)) \<and>
      \<not> isl (password_must_be_strong U (password body)) \<and>
      \<not> isl (full_name_must_be_proper_format U (full_name body)))"

definition db_record :: "datetime \<Rightarrow> user_create \<Rightarrow> dict" where
  "db_record now r =
     [(''username'', JStr (username r)),
      (''email'', JStr (email r)),
      (''full_name'', optional (full_name r)),
      (''join_date'', JStr (isoformat now)),
      (''password'', JStr (password r)),
      (''validation_status'', JStr (str ''passed''))]"

definition rejected_fields :: "unicode_db \<Rightarrow> (str \<Rightarrow> error + str) \<Rightarrow> user_create \<Rightarrow> string list" where
  "rejected_fields U EmailStr body =
     (if isl (username_must_be_alphanumeric U (username body)) then [''username''] else []) @
     (if isl (EmailStr (email body)) then [''email''] else []) @
     (if isl (password_must_be_strong U (password body)) then [''password''] else []) @
     (if isl (full_name_must_be_proper_format U (full_name body)) then [''full_name''] else [])"

text \<open>
  The keys of a response body, and the parameter \<open>key\<close> of the section \<open>sect\<close> of the
  document that \<^verbatim>\<open>get_validation_rules\<close> returns.
\<close>

definition keys :: "json \<Rightarrow> string list" where
  "keys j = (case j of JObj kvs \<Rightarrow> map fst kvs | _ \<Rightarrow> [])"

definition param :: "json \<Rightarrow> string \<Rightarrow> string \<Rightarrow> json option" where
  "param doc sect key =
     (case doc of
        JObj secs \<Rightarrow> (case map_of secs sect of Some (JObj kvs) \<Rightarrow> map_of kvs key | _ \<Rightarrow> None)
      | _ \<Rightarrow> None)"

definition rules_document :: json where
  "rules_document = snd (fst (get_validation_rules []))"


section \<open>Concrete data for the examples\<close>

text \<open>
  Entries of the Unicode database at which the examples below evaluate the model: the
  letters U+00E9 (e with acute), U+4E2D and U+6587 (CJK ideographs) and the digit U+0663
  (Arabic-Indic three) are alphanumeric; U+00A0 and U+3000 are whitespace. The examples
  use no other code point from 128 on.
\<close>

definition unicode_sample :: unicode_db where
  "unicode_sample =
     \<lparr>uc_alnum = (\<lambda>c. c = 0xE9 \<or> c = 0x4E2D \<or> c = 0x6587 \<or> c = 0x663),
      uc_space = (\<lambda>c. c = 0xA0 \<or> c = 0x3000)\<rparr>"

text \<open>
  The email validation at the two addresses of the examples, both of which it returns
  unchanged, a clock reading, an accepted request, and a request whose username and
  password are both rejected.
\<close>

definition EmailStr_sample :: "str \<Rightarrow> error + str" where
  "EmailStr_sample v =
     (if v = str ''alice@example.com'' \<or> v = str ''a@b.com'' then Inr v
      else Inl (ValueError ''value is not a valid email address''))"

definition now_sample :: datetime where
  "now_sample = \<lparr>year = 2024, month = 1, day = 15, hour = 10, minute = 30, second = 0,
                  microsecond = 123456\<rparr>"

definition alice :: user_create where
  "alice = \<lparr>username = str ''alice1'', email = str ''alice@example.com'',
             password = str ''Str0ng!Pass'', full_name = Some (str ''Alice A.'')\<rparr>"

definition weak_request :: user_create where
  "weak_request = \<lparr>username = str ''a b'', email = str ''alice@example.com'',
                    password = str ''weak'', full_name = None\<rparr>"


section \<open>Properties of the library fragment\<close>

lemma search_from_Set:
  "search_from U [Set cs] v b = (\<exists>c\<in>set v. in_set U cs c)"
  by (induction v arbitrary: b) auto

lemma re_search_Set: "re_search U [Set cs] v = (\<exists>c\<in>set v. in_set U cs c)"
  by (simp add: re_search_def search_from_Set)

lemma in_upper_set: "in_set U upper_set c = (ord CHR ''A'' \<le> c \<and> c \<le> ord CHR ''Z'')"
  by (simp add: in_set_def upper_set_def)

lemma in_special_set: "in_set U special_set c = (c \<in> set (str ''!@#$%^&*(),.?\":{}|<>''))"
  by (simp add: in_set_def special_set_def str_def list_ex_iff image_iff)

lemma in_full_name_set:
  "in_set U full_name_set c =
     (ascii_letter c \<or> char_isspace U c \<or> c = ord CHR ''-'' \<or> c = ord CHR 0x27 \<or> c = ord CHR ''.'')"
  by (auto simp add: in_set_def full_name_set_def ascii_letter_def)

lemma matches_SetPlus_Dollar:
  "matches U [SetPlus cs, Dollar] v b =
     (v \<noteq> [] \<and> (list_all (in_set U cs) v \<or> (\<exists>t. v = t @ [10] \<and> t \<noteq> [] \<and> list_all (in_set U cs) t)))"
proof (induction v arbitrary: b)
  case Nil
  show ?case by simp
next
  case (Cons c v)
  have step: "matches U [SetPlus cs, Dollar] (c # v) b =
      (in_set U cs c \<and> (matches U [SetPlus cs, Dollar] v False \<or> v = [] \<or> v = [10]))"
    by simp
  show ?case unfolding step Cons.IH
    by (auto simp: Cons_eq_append_conv)
qed

lemma in_lower_set: "in_set U lower_set c = (ord CHR ''a'' \<le> c \<and> c \<le> ord CHR ''z'')"
  by (simp add: in_set_def lower_set_def)

lemma in_digit_set: "in_set U digit_set c = (ord CHR ''0'' \<le> c \<and> c \<le> ord CHR ''9'')"
  by (simp add: in_set_def digit_set_def)

lemma newline_in_full_name_set: "in_set U full_name_set 10"
  by (simp add: in_set_def full_name_set_def char_isspace_def)

lemma re_match_full_name:
  "re_match U [Caret, SetPlus full_name_set, Dollar] s =
     (s \<noteq> [] \<and> list_all (in_set U full_name_set) s)"
  by (auto simp: re_match_def matches_SetPlus_Dollar newline_in_full_name_set)

lemma search_upper: "re_search U [Set upper_set] v = satisfies Uppercase v"
  by (simp add: re_search_Set in_upper_set upper_latin_def ord_def)

lemma search_lower: "re_search U [Set lower_set] v = satisfies Lowercase v"
  by (simp add: re_search_Set in_lower_set lower_latin_def ord_def)

lemma search_digit: "re_search U [Set digit_set] v = satisfies Digit v"
  by (simp add: re_search_Set in_digit_set decimal_digit_def ord_def)

lemma search_special: "re_search U [Set special_set] v = satisfies Special v"
  unfolding re_search_Set in_special_set satisfies.simps special_char_def ..

lemma password_first_failure:
  "password_must_be_strong U v =
     (if \<not> satisfies MinLength v then Inl (ValueError (rule_message MinLength))
      else if \<not> satisfies Uppercase v then Inl (ValueError (rule_message Uppercase))
      else if \<not> satisfies Lowercase v then Inl (ValueError (rule_message Lowercase))
      else if \<not> satisfies Digit v then Inl (ValueError (rule_message Digit))
      else if \<not> satisfies Special v then Inl (ValueError (rule_message Special))
      else Inr v)"
  unfolding password_must_be_strong_def search_upper search_lower search_digit search_special
  by (simp add: not_less)

lemma inj_rule_message: "inj rule_message"
proof (rule injI)
  fix r s assume "rule_message r = rule_message s"
  then show "r = s" by (cases r; cases s; simp)
qed

lemmas ev = str_def ord_def upper_latin_def lower_latin_def decimal_digit_def special_char_def
  char_isalnum_def char_isspace_def ascii_letter_def ascii_digit_def unicode_sample_def full_name_char_def

text \<open>
  Claim C1. \<open>password_must_be_strong\<close> accepts a password (returning it unchanged) if and
  only if all five rules hold: at least 8 characters, an uppercase Latin letter, a
  lowercase Latin letter, a decimal digit and a character of the special set. Every
  other password is rejected with a \<open>ValueError\<close> whose message is the message of a rule
  that the password violates; the five messages are pairwise different, so the message
  identifies the rule.
\<close>

theorem password_must_be_strong_spec:
  "(password_must_be_strong U v = Inr v) =
     (8 \<le> length v \<and> (\<exists>c\<in>set v. upper_latin c) \<and> (\<exists>c\<in>set v. lower_latin c) \<and>
      (\<exists>c\<in>set v. decimal_digit c) \<and> (\<exists>c\<in>set v. special_char c))
   \<and> (\<forall>w. password_must_be_strong U v = Inr w \<longrightarrow> w = v)
   \<and> (password_must_be_strong U v \<noteq> Inr v \<longrightarrow>
        (\<exists>r. \<not> satisfies r v \<and> password_must_be_strong U v = Inl (ValueError (rule_message r))))
   \<and> inj rule_message"
proof -
  have a: "(password_must_be_strong U v = Inr v) = (\<forall>r. satisfies r v)"
  proof
    assume "password_must_be_strong U v = Inr v"
    then have all: "satisfies MinLength v" "satisfies Uppercase v" "satisfies Lowercase v"
      "satisfies Digit v" "satisfies Special v"
      by (simp_all add: password_first_failure split: if_splits)
    show "\<forall>r. satisfies r v"
    proof
      fix r show "satisfies r v" using all by (cases r) simp_all
    qed
  next
    assume "\<forall>r. satisfies r v"
    then show "password_must_be_strong U v = Inr v"
      by (simp add: password_first_failure)
  qed
  have b: "(\<forall>r. satisfies r v) =
     (8 \<le> length v \<and> (\<exists>c\<in>set v. upper_latin c) \<and> (\<exists>c\<in>set v. lower_latin c) \<and>
      (\<exists>c\<in>set v. decimal_digit c) \<and> (\<exists>c\<in>set v. special_char c))"
  proof
    assume h: "\<forall>r. satisfies r v"
    from h[rule_format, of MinLength] h[rule_format, of Uppercase] h[rule_format, of Lowercase]
      h[rule_format, of Digit] h[rule_format, of Special]
    show "8 \<le> length v \<and> (\<exists>c\<in>set v. upper_latin c) \<and> (\<exists>c\<in>set v. lower_latin c) \<and>
      (\<exists>c\<in>set v. decimal_digit c) \<and> (\<exists>c\<in>set v. special_char c)" by simp
  next
    assume h: "8 \<le> length v \<and> (\<exists>c\<in>set v. upper_latin c) \<and> (\<exists>c\<in>set v. lower_latin c) \<and>
      (\<exists>c\<in>set v. decimal_digit c) \<and> (\<exists>c\<in>set v. special_char c)"
    show "\<forall>r. satisfies r v"
    proof
      fix r show "satisfies r v" using h by (cases r) simp_all
    qed
  qed
  have c: "\<forall>w. password_must_be_strong U v = Inr w \<longrightarrow> w = v"
    by (simp add: password_first_failure split: if_splits)
  have d: "password_must_be_strong U v \<noteq> Inr v \<longrightarrow>
        (\<exists>r. \<not> satisfies r v \<and> password_must_be_strong U v = Inl (ValueError (rule_message r)))"
  proof
    assume "password_must_be_strong U v \<noteq> Inr v"
    then consider "\<not> satisfies MinLength v"
      | "satisfies MinLength v" "\<not> satisfies Uppercase v"
      | "satisfies MinLength v" "satisfies Uppercase v" "\<not> satisfies Lowercase v"
      | "satisfies MinLength v" "satisfies Uppercase v" "satisfies Lowercase v" "\<not> satisfies Digit v"
      | "satisfies MinLength v" "satisfies Uppercase v" "satisfies Lowercase v" "satisfies Digit v"
        "\<not> satisfies Special v"
      unfolding password_first_failure by (auto split: if_splits)
    then show "\<exists>r. \<not> satisfies r v \<and> password_must_be_strong U v = Inl (ValueError (rule_message r))"
    proof cases
      case 1 then show ?thesis by (intro exI[of _ MinLength]) (simp add: password_first_failure)
    next
      case 2 then show ?thesis by (intro exI[of _ Uppercase]) (simp add: password_first_failure)
    next
      case 3 then show ?thesis by (intro exI[of _ Lowercase]) (simp add: password_first_failure)
    next
      case 4 then show ?thesis by (intro exI[of _ Digit]) (simp add: password_first_failure)
    next
      case 5 then show ?thesis by (intro exI[of _ Special]) (simp add: password_first_failure)
    qed
  qed
  show ?thesis using a b c d inj_rule_message by simp
qed

theorem password_must_be_strong_spec_witness:
  "password_must_be_strong unicode_sample (str ''Str0ng!Pass'') = Inr (str ''Str0ng!Pass'')
   \<and> (\<exists>r. \<not> satisfies r (str ''weak'') \<and>
        password_must_be_strong unicode_sample (str ''weak'') = Inl (ValueError (rule_message r)))"
proof -
  have ok: "8 \<le> length (str ''Str0ng!Pass'') \<and> (\<exists>c\<in>set (str ''Str0ng!Pass''). upper_latin c) \<and>
      (\<exists>c\<in>set (str ''Str0ng!Pass''). lower_latin c) \<and> (\<exists>c\<in>set (str ''Str0ng!Pass''). decimal_digit c) \<and>
      (\<exists>c\<in>set (str ''Str0ng!Pass''). special_char c)"
    by (simp add: ev)
  have acc: "password_must_be_strong unicode_sample (str ''Str0ng!Pass'') = Inr (str ''Str0ng!Pass'')"
    by (rule iffD2 [OF password_must_be_strong_spec [THEN conjunct1] ok])
  have short: "\<not> (8 \<le> length (str ''weak'') \<and> (\<exists>c\<in>set (str ''weak''). upper_latin c) \<and>
      (\<exists>c\<in>set (str ''weak''). lower_latin c) \<and> (\<exists>c\<in>set (str ''weak''). decimal_digit c) \<and>
      (\<exists>c\<in>set (str ''weak''). special_char c))"
    by (simp add: str_def)
  have rej: "password_must_be_strong unicode_sample (str ''weak'') \<noteq> Inr (str ''weak'')"
    using iffD1 [OF password_must_be_strong_spec [of unicode_sample "str ''weak''", THEN conjunct1]] short
    by blast
  have "\<exists>r. \<not> satisfies r (str ''weak'') \<and>
        password_must_be_strong unicode_sample (str ''weak'') = Inl (ValueError (rule_message r))"
    by (rule mp [OF password_must_be_strong_spec [THEN conjunct2, THEN conjunct2, THEN conjunct1] rej])
  with acc show ?thesis by (rule conjI)
qed

lemma in_full_name_set_spec: "in_set U full_name_set = full_name_char U"
  by (rule ext)
    (auto simp: in_set_def full_name_set_def full_name_char_def upper_latin_def lower_latin_def ord_def)

lemma full_name_first_failure:
  "full_name_must_be_proper_format U (Some s) =
     (if s = [] \<or> \<not> list_all (full_name_char U) s then
        Inl (ValueError ''Full name can only contain letters, spaces, hyphens, apostrophes, and periods'')
      else if length s < 2 then Inl (ValueError ''Full name must be at least 2 characters long'')
      else if 50 < length s then Inl (ValueError ''Full name must be at most 50 characters long'')
      else Inr (Some s))"
  by (simp add: full_name_must_be_proper_format_def re_match_full_name in_full_name_set_spec)



lemma username_first_failure:
  "username_must_be_alphanumeric U v =
     (if v = [] \<or> \<not> list_all (char_isalnum U) v then
        Inl (ValueError ''Username must be alphanumeric (letters and numbers only)'')
      else if length v < 3 then Inl (ValueError ''Username must be at least 3 characters long'')
      else if 20 < length v then Inl (ValueError ''Username must be at most 20 characters long'')
      else Inr v)"
  by (simp add: username_must_be_alphanumeric_def isalnum_def)

lemma username_accept_iff:
  "(username_must_be_alphanumeric U v = Inr v) =
     ((\<forall>c\<in>set v. char_isalnum U c) \<and> 3 \<le> length v \<and> length v \<le> 20)"
  unfolding username_first_failure by (auto simp: list_all_iff)

text \<open>
  Claim C2. \<open>username_must_be_alphanumeric\<close> accepts a username if and only if every
  character is alphanumeric (a letter or a digit in the sense of \<^verbatim>\<open>str.isalnum\<close>) and
  the length is between 3 and 20. The empty string is rejected by the alphanumeric check,
  and so is every username that contains a character that is not alphanumeric, in
  particular an ASCII character that is neither a Latin letter nor a decimal digit
  (space, punctuation, symbols).
\<close>

theorem username_must_be_alphanumeric_spec:
  "(username_must_be_alphanumeric U v = Inr v) =
     ((\<forall>c\<in>set v. char_isalnum U c) \<and> 3 \<le> length v \<and> length v \<le> 20)
   \<and> (\<forall>w. username_must_be_alphanumeric U v = Inr w \<longrightarrow> w = v)
   \<and> username_must_be_alphanumeric U [] =
       Inl (ValueError ''Username must be alphanumeric (letters and numbers only)'')
   \<and> ((\<exists>c\<in>set v. \<not> char_isalnum U c) \<longrightarrow>
        username_must_be_alphanumeric U v =
          Inl (ValueError ''Username must be alphanumeric (letters and numbers only)''))
   \<and> ((\<exists>c\<in>set v. c < 128 \<and> \<not> upper_latin c \<and> \<not> lower_latin c \<and> \<not> decimal_digit c) \<longrightarrow>
        username_must_be_alphanumeric U v =
          Inl (ValueError ''Username must be alphanumeric (letters and numbers only)''))"
proof -
  have c: "\<forall>w. username_must_be_alphanumeric U v = Inr w \<longrightarrow> w = v"
    by (simp add: username_first_failure split: if_splits)
  have d: "username_must_be_alphanumeric U [] =
       Inl (ValueError ''Username must be alphanumeric (letters and numbers only)'')"
    by (simp add: username_first_failure)
  have e: "(\<exists>c\<in>set v. \<not> char_isalnum U c) \<longrightarrow>
        username_must_be_alphanumeric U v =
          Inl (ValueError ''Username must be alphanumeric (letters and numbers only)'')"
    by (auto simp: username_first_failure list_all_iff)
  have f: "c < 128 \<and> \<not> upper_latin c \<and> \<not> lower_latin c \<and> \<not> decimal_digit c \<Longrightarrow> \<not> char_isalnum U c" for c
    by (simp add: char_isalnum_def ascii_letter_def ascii_digit_def upper_latin_def lower_latin_def
        decimal_digit_def ord_def)
  have g: "(\<exists>c\<in>set v. c < 128 \<and> \<not> upper_latin c \<and> \<not> lower_latin c \<and> \<not> decimal_digit c) \<longrightarrow>
        username_must_be_alphanumeric U v =
          Inl (ValueError ''Username must be alphanumeric (letters and numbers only)'')"
    using e f by blast
  show ?thesis using username_accept_iff[of U v] c d e g by simp
qed

theorem username_must_be_alphanumeric_spec_witness:
  "username_must_be_alphanumeric unicode_sample (str ''alice1'') = Inr (str ''alice1'')
   \<and> username_must_be_alphanumeric unicode_sample (str ''user_name'') =
       Inl (ValueError ''Username must be alphanumeric (letters and numbers only)'')"
proof -
  have a: "(\<forall>c\<in>set (str ''alice1''). char_isalnum unicode_sample c) \<and> 3 \<le> length (str ''alice1'')
      \<and> length (str ''alice1'') \<le> 20"
    by (simp add: ev)
  have acc: "username_must_be_alphanumeric unicode_sample (str ''alice1'') = Inr (str ''alice1'')"
    by (rule iffD2 [OF username_must_be_alphanumeric_spec [THEN conjunct1] a])
  have b: "\<exists>c\<in>set (str ''user_name''). c < 128 \<and> \<not> upper_latin c \<and> \<not> lower_latin c \<and> \<not> decimal_digit c"
    by (simp add: ev)
  have "username_must_be_alphanumeric unicode_sample (str ''user_name'') =
       Inl (ValueError ''Username must be alphanumeric (letters and numbers only)'')"
    by (rule mp [OF username_must_be_alphanumeric_spec
          [THEN conjunct2, THEN conjunct2, THEN conjunct2, THEN conjunct2] b])
  with acc show ?thesis by (rule conjI)
qed

text \<open>
  Claim C9. A username of length 3 to 20 whose characters are Latin letters, decimal
  digits or code points beyond ASCII that the Unicode database classifies as alphanumeric
  is accepted; so for every such code point there is an accepted username made of it,
  although it is neither a Latin letter nor a decimal digit.
\<close>

theorem username_accepts_unicode:
  "(3 \<le> length v \<and> length v \<le> 20 \<and>
      (\<forall>c\<in>set v. upper_latin c \<or> lower_latin c \<or> decimal_digit c \<or> (128 \<le> c \<and> uc_alnum U c))
      \<longrightarrow> username_must_be_alphanumeric U v = Inr v)
   \<and> (128 \<le> c \<and> uc_alnum U c \<longrightarrow>
        username_must_be_alphanumeric U [c, c, c] = Inr [c, c, c] \<and>
        \<not> upper_latin c \<and> \<not> lower_latin c \<and> \<not> decimal_digit c)"
proof -
  have k: "upper_latin d \<or> lower_latin d \<or> decimal_digit d \<or> (128 \<le> d \<and> uc_alnum U d)
      \<Longrightarrow> char_isalnum U d" for d
    by (auto simp: char_isalnum_def ascii_letter_def ascii_digit_def upper_latin_def lower_latin_def
        decimal_digit_def ord_def)
  have a: "3 \<le> length v \<and> length v \<le> 20 \<and>
      (\<forall>c\<in>set v. upper_latin c \<or> lower_latin c \<or> decimal_digit c \<or> (128 \<le> c \<and> uc_alnum U c))
      \<longrightarrow> username_must_be_alphanumeric U v = Inr v"
    using k by (auto simp: username_accept_iff)
  have b: "128 \<le> c \<and> uc_alnum U c \<longrightarrow>
        username_must_be_alphanumeric U [c, c, c] = Inr [c, c, c] \<and>
        \<not> upper_latin c \<and> \<not> lower_latin c \<and> \<not> decimal_digit c"
    using k[of c] by (auto simp: username_accept_iff upper_latin_def lower_latin_def decimal_digit_def)
  show ?thesis using a b by simp
qed

theorem username_accepts_unicode_witness:
  "username_must_be_alphanumeric unicode_sample [0x4A, 0x6F, 0x73, 0xE9] = Inr [0x4A, 0x6F, 0x73, 0xE9]
   \<and> username_must_be_alphanumeric unicode_sample [0x4E2D, 0x4E2D, 0x4E2D] = Inr [0x4E2D, 0x4E2D, 0x4E2D]
   \<and> \<not> upper_latin 0x4E2D \<and> \<not> lower_latin 0x4E2D \<and> \<not> decimal_digit 0x4E2D"
proof -
  have a: "3 \<le> length [0x4A, 0x6F, 0x73, 0xE9::nat] \<and> length [0x4A, 0x6F, 0x73, 0xE9::nat] \<le> 20 \<and>
      (\<forall>c\<in>set [0x4A, 0x6F, 0x73, 0xE9]. upper_latin c \<or> lower_latin c \<or> decimal_digit c \<or>
          (128 \<le> c \<and> uc_alnum unicode_sample c))"
    by (simp add: ev)
  have acc: "username_must_be_alphanumeric unicode_sample [0x4A, 0x6F, 0x73, 0xE9] = Inr [0x4A, 0x6F, 0x73, 0xE9]"
    by (rule mp [OF username_accepts_unicode [THEN conjunct1] a])
  have b: "128 \<le> (0x4E2D::nat) \<and> uc_alnum unicode_sample 0x4E2D"
    by (simp add: ev)
  have "username_must_be_alphanumeric unicode_sample [0x4E2D, 0x4E2D, 0x4E2D] = Inr [0x4E2D, 0x4E2D, 0x4E2D]
   \<and> \<not> upper_latin 0x4E2D \<and> \<not> lower_latin 0x4E2D \<and> \<not> decimal_digit 0x4E2D"
    by (rule mp [OF username_accepts_unicode [THEN conjunct2] b])
  with acc show ?thesis by (rule conjI)
qed

text \<open>
  Claim C10. A present full name of length 2 to 50 that consists only of whitespace
  characters, hyphens, apostrophes and periods is accepted, for instance two hyphens or
  two spaces: no letter has to occur.
\<close>

theorem full_name_without_letters:
  "((\<forall>c\<in>set s. char_isspace U c \<or> c = 45 \<or> c = 39 \<or> c = 46) \<and> 2 \<le> length s \<and> length s \<le> 50
      \<longrightarrow> full_name_must_be_proper_format U (Some s) = Inr (Some s))
   \<and> full_name_must_be_proper_format U (Some (str ''--'')) = Inr (Some (str ''--''))
   \<and> full_name_must_be_proper_format U (Some (str ''  '')) = Inr (Some (str ''  ''))"
proof -
  have a: "(\<forall>c\<in>set s. char_isspace U c \<or> c = 45 \<or> c = 39 \<or> c = 46) \<and> 2 \<le> length s \<and> length s \<le> 50
      \<longrightarrow> full_name_must_be_proper_format U (Some s) = Inr (Some s)"
    unfolding full_name_first_failure by (auto simp: list_all_iff full_name_char_def)
  have b: "full_name_must_be_proper_format U (Some (str ''--'')) = Inr (Some (str ''--''))"
    by (simp add: full_name_first_failure full_name_char_def str_def ord_def)
  have c: "full_name_must_be_proper_format U (Some (str ''  '')) = Inr (Some (str ''  ''))"
    by (simp add: full_name_first_failure full_name_char_def str_def ord_def char_isspace_def)
  show ?thesis using a b c by simp
qed

theorem full_name_without_letters_witness:
  "full_name_must_be_proper_format unicode_sample (Some (str '' -'.'')) = Inr (Some (str '' -'.''))"
proof -
  have a: "(\<forall>c\<in>set (str '' -'.''). char_isspace unicode_sample c \<or> c = 45 \<or> c = 39 \<or> c = 46)
      \<and> 2 \<le> length (str '' -'.'') \<and> length (str '' -'.'') \<le> 50"
    by (simp add: ev)
  show ?thesis
    by (rule mp [OF full_name_without_letters [THEN conjunct1] a])
qed

section \<open>The request model and the routes\<close>

lemma username_result: "username_must_be_alphanumeric U v = Inr w \<Longrightarrow> w = v"
  by (simp add: username_first_failure split: if_splits)

lemma password_result: "password_must_be_strong U v = Inr w \<Longrightarrow> w = v"
  by (simp add: password_first_failure split: if_splits)

lemma full_name_result: "full_name_must_be_proper_format U v = Inr w \<Longrightarrow> w = v"
  by (cases v) (simp_all add: full_name_must_be_proper_format_def split: if_splits)

lemma field_errors_Inr [simp]: "field_errors l (Inr x) = []"
  by (simp add: field_errors_def)

lemma field_errors_Inl [simp]: "field_errors l (Inl e) = [LineError l e]"
  by (simp add: field_errors_def)

lemma UserCreate_accepted:
  assumes "accepted U E body" and "E (email body) = Inr e"
  shows "UserCreate U E body = Inr (body\<lparr>email := e\<rparr>)"
proof -
  from assms(1) obtain u p f where
    u: "username_must_be_alphanumeric U (username body) = Inr u" and
    p: "password_must_be_strong U (password body) = Inr p" and
    f: "full_name_must_be_proper_format U (full_name body) = Inr f"
    unfolding accepted_def by (metis isl_def sum.exhaust_sel sum.collapse(2))
  from u p f have "u = username body" "p = password body" "f = full_name body"
    by (auto dest: username_result password_result full_name_result)
  with u p f assms(2) show ?thesis
    by (simp add: UserCreate_def)
qed

lemma UserCreate_rejected:
  assumes "\<not> accepted U E body"
  shows "UserCreate U E body =
     Inl (field_errors ''username'' (username_must_be_alphanumeric U (username body)) @
          field_errors ''email'' (E (email body)) @
          field_errors ''password'' (password_must_be_strong U (password body)) @
          field_errors ''full_name'' (full_name_must_be_proper_format U (full_name body)))"
  using assms unfolding accepted_def UserCreate_def Let_def
  by (auto split: sum.splits)

lemma UserCreate_Inr_iff:
  "(\<exists>r. UserCreate U E body = Inr r) = accepted U E body"
proof
  assume "\<exists>r. UserCreate U E body = Inr r"
  then obtain r where r: "UserCreate U E body = Inr r" ..
  show "accepted U E body"
  proof (rule ccontr)
    assume "\<not> accepted U E body"
    from UserCreate_rejected[OF this] r show False by simp
  qed
next
  assume a: "accepted U E body"
  then obtain e where "E (email body) = Inr e"
    unfolding accepted_def by (cases "E (email body)") auto
  with a show "\<exists>r. UserCreate U E body = Inr r"
    using UserCreate_accepted by blast
qed

lemma create_user_eq:
  "create_user now fake_db r = (fake_db @ [db_record now r], db_record now r)"
  by (simp add: create_user_def db_record_def Let_def)

lemma UserOut_db_record:
  "UserOut E (db_record now r) =
     (case E (email r) of
        Inl _ \<Rightarrow> None
      | Inr e \<Rightarrow> Some \<lparr>out_username = username r, out_email = e, out_full_name = full_name r,
                      join_date = isoformat now, validation_status = str ''passed''\<rparr>)"
  by (cases "full_name r")
    (simp_all add: UserOut_def db_record_def required_str_def optional_str_def default_str_def
      optional_def split: sum.splits)

lemma post_users_accepted:
  assumes "accepted U E body" and "E (email body) = Inr e"
  shows "post_users U E now fake_db body =
     ((case E e of
         Inl _ \<Rightarrow> Inl ResponseValidationError
       | Inr e' \<Rightarrow> Inr (201, JObj (model_dump \<lparr>out_username = username body, out_email = e',
            out_full_name = full_name body, join_date = isoformat now,
            validation_status = str ''passed''\<rparr>))),
      fake_db @ [db_record now (body\<lparr>email := e\<rparr>)])"
  by (simp add: post_users_def UserCreate_accepted[OF assms] create_user_eq UserOut_db_record
      split: sum.splits)

lemma post_users_rejected:
  assumes "\<not> accepted U E body"
  shows "post_users U E now fake_db body =
     (Inl (RequestValidationError
        (field_errors ''username'' (username_must_be_alphanumeric U (username body)) @
          field_errors ''email'' (E (email body)) @
          field_errors ''password'' (password_must_be_strong U (password body)) @
          field_errors ''full_name'' (full_name_must_be_proper_format U (full_name body)))),
      fake_db)"
  by (simp add: post_users_def UserCreate_rejected[OF assms])

lemma rejected_errors_nonempty:
  assumes "\<not> accepted U E body"
  shows "field_errors ''username'' (username_must_be_alphanumeric U (username body)) @
          field_errors ''email'' (E (email body)) @
          field_errors ''password'' (password_must_be_strong U (password body)) @
          field_errors ''full_name'' (full_name_must_be_proper_format U (full_name body)) \<noteq> []"
  using assms unfolding accepted_def field_errors_def by (auto split: sum.splits)

lemma decimal_small: "n < 10 \<Longrightarrow> decimal n = [ord CHR ''0'' + n]"
  by (subst decimal.simps) simp

lemma decimal_large: "\<not> n < 10 \<Longrightarrow> decimal n = decimal (n div 10) @ [ord CHR ''0'' + n mod 10]"
  by (subst decimal.simps) simp

lemma isoformat_now_sample: "isoformat now_sample = str ''2024-01-15T10:30:00.123456''"
  by (simp add: isoformat_def now_sample_def zero_pad_def decimal_small decimal_large str_def ord_def)

lemma alice_accepted: "accepted unicode_sample EmailStr_sample alice"
  by (simp add: accepted_def alice_def EmailStr_sample_def username_first_failure
      password_first_failure full_name_first_failure ev)



lemma post_users_fst_accepted:
  assumes "post_users U E now fake_db body = (Inr (code, view), db')"
  shows "accepted U E body \<and>
     (\<exists>e e'. E (email body) = Inr e \<and> E e = Inr e' \<and> code = 201 \<and>
        view = JObj (model_dump \<lparr>out_username = username body, out_email = e',
            out_full_name = full_name body, join_date = isoformat now,
            validation_status = str ''passed''\<rparr>))"
proof -
  have a: "accepted U E body"
  proof (rule ccontr)
    assume "\<not> accepted U E body"
    from post_users_rejected[OF this, of now fake_db] assms show False by simp
  qed
  then obtain e where e: "E (email body) = Inr e"
    unfolding accepted_def by (cases "E (email body)") auto
  from post_users_accepted[OF a e, of now fake_db] assms show ?thesis
    using a e by (cases "E e") auto
qed

text \<open>
  Claim C5. The body of a successful answer (status 201) has exactly the keys username,
  email, full_name, join_date and validation_status, so no key password; and it does not
  depend on the password: the same request with any other accepted password gets the same
  body, and the response model built from a stored record is the same whatever password
  the record holds.
\<close>

theorem response_excludes_password:
  "(post_users U E now fake_db body = (Inr (code, view), db') \<longrightarrow>
      code = 201
      \<and> keys view = [''username'', ''email'', ''full_name'', ''join_date'', ''validation_status'']
      \<and> ''password'' \<notin> set (keys view)
      \<and> (\<forall>p. accepted U E (body\<lparr>password := p\<rparr>) \<longrightarrow>
            fst (post_users U E now fake_db (body\<lparr>password := p\<rparr>)) = Inr (code, view)))
   \<and> UserOut E (snd (create_user now fake_db (user_data\<lparr>password := p\<rparr>))) =
       UserOut E (snd (create_user now fake_db user_data))"
proof -
  have a: "post_users U E now fake_db body = (Inr (code, view), db') \<longrightarrow>
      code = 201
      \<and> keys view = [''username'', ''email'', ''full_name'', ''join_date'', ''validation_status'']
      \<and> ''password'' \<notin> set (keys view)
      \<and> (\<forall>p. accepted U E (body\<lparr>password := p\<rparr>) \<longrightarrow>
            fst (post_users U E now fake_db (body\<lparr>password := p\<rparr>)) = Inr (code, view))"
  proof
    assume h: "post_users U E now fake_db body = (Inr (code, view), db')"
    from post_users_fst_accepted[OF h] obtain e e' where
      e: "E (email body) = Inr e" and e': "E e = Inr e'" and c: "code = 201" and
      v: "view = JObj (model_dump \<lparr>out_username = username body, out_email = e',
            out_full_name = full_name body, join_date = isoformat now,
            validation_status = str ''passed''\<rparr>)"
      by blast
    have k: "keys view = [''username'', ''email'', ''full_name'', ''join_date'', ''validation_status'']"
      by (simp add: v keys_def model_dump_def)
    have n: "''password'' \<notin> set (keys view)"
      by (simp add: k)
    have q: "fst (post_users U E now fake_db (body\<lparr>password := p\<rparr>)) = Inr (code, view)"
      if "accepted U E (body\<lparr>password := p\<rparr>)" for p
    proof -
      have "E (email (body\<lparr>password := p\<rparr>)) = Inr e" using e by simp
      from post_users_accepted[OF that this, of now fake_db] show ?thesis
        by (simp add: e' c v)
    qed
    from c k n q show "code = 201
      \<and> keys view = [''username'', ''email'', ''full_name'', ''join_date'', ''validation_status'']
      \<and> ''password'' \<notin> set (keys view)
      \<and> (\<forall>p. accepted U E (body\<lparr>password := p\<rparr>) \<longrightarrow>
            fst (post_users U E now fake_db (body\<lparr>password := p\<rparr>)) = Inr (code, view))"
      by blast
  qed
  have b: "UserOut E (snd (create_user now fake_db (user_data\<lparr>password := p\<rparr>))) =
       UserOut E (snd (create_user now fake_db user_data))"
    by (simp add: create_user_eq UserOut_db_record split: sum.splits)
  from a b show ?thesis by (rule conjI)
qed

lemma alice_response:
  "post_users unicode_sample EmailStr_sample now_sample [] alice =
     (Inr (201, JObj [(''username'', JStr (str ''alice1'')),
                      (''email'', JStr (str ''alice@example.com'')),
                      (''full_name'', JStr (str ''Alice A.'')),
                      (''join_date'', JStr (str ''2024-01-15T10:30:00.123456'')),
                      (''validation_status'', JStr (str ''passed''))]),
      [db_record now_sample alice])"
proof -
  have e: "EmailStr_sample (email alice) = Inr (str ''alice@example.com'')"
    by (simp add: alice_def EmailStr_sample_def)
  have e2: "EmailStr_sample (str ''alice@example.com'') = Inr (str ''alice@example.com'')"
    by (simp add: EmailStr_sample_def)
  have same: "alice\<lparr>email := str ''alice@example.com''\<rparr> = alice"
    by (simp add: alice_def)
  show ?thesis
    unfolding post_users_accepted[OF alice_accepted e] e2 same isoformat_now_sample
    by (simp add: model_dump_def optional_def alice_def)
qed

theorem response_excludes_password_witness:
  "keys (snd (projr (fst (post_users unicode_sample EmailStr_sample now_sample [] alice)))) =
     [''username'', ''email'', ''full_name'', ''join_date'', ''validation_status'']
   \<and> ''password'' \<notin> set (keys (snd (projr (fst (post_users unicode_sample EmailStr_sample now_sample [] alice)))))"
proof -
  let ?view = "JObj [(''username'', JStr (str ''alice1'')),
                      (''email'', JStr (str ''alice@example.com'')),
                      (''full_name'', JStr (str ''Alice A.'')),
                      (''join_date'', JStr (str ''2024-01-15T10:30:00.123456'')),
                      (''validation_status'', JStr (str ''passed''))]"
  have v: "snd (projr (fst (post_users unicode_sample EmailStr_sample now_sample [] alice))) = ?view"
    unfolding alice_response by simp
  from mp [OF response_excludes_password [THEN conjunct1] alice_response]
  have "keys ?view = [''username'', ''email'', ''full_name'', ''join_date'', ''validation_status'']
      \<and> ''password'' \<notin> set (keys ?view)"
    by blast
  then show ?thesis unfolding v .
qed

lemma length_post_users:
  "length (snd (post_users U E now fake_db body)) =
     length fake_db + (if accepted U E body then 1 else 0)"
proof (cases "accepted U E body")
  case True
  then obtain e where e: "E (email body) = Inr e"
    unfolding accepted_def by (cases "E (email body)") auto
  show ?thesis using True by (simp add: post_users_accepted[OF True e])
next
  case False
  then show ?thesis by (simp add: post_users_rejected[OF False])
qed

lemma rejected_iff:
  "(\<not> accepted U E body) =
     (isl (username_must_be_alphanumeric U (username body)) \<or> isl (E (email body)) \<or>
      isl (password_must_be_strong U (password body)) \<or>
      isl (full_name_must_be_proper_format U (full_name body)))"
  by (simp add: accepted_def)

text \<open>
  Claim C6. When some field validator rejects the request, the operation fails with a
  request validation error (status 422, a client error) that carries at least one error,
  and the storage is unchanged. The length of the storage grows by one on acceptance and
  not at all otherwise.
\<close>

theorem rejected_request_leaves_storage:
  "(isl (username_must_be_alphanumeric U (username body)) \<or> isl (E (email body)) \<or>
      isl (password_must_be_strong U (password body)) \<or>
      isl (full_name_must_be_proper_format U (full_name body)) \<longrightarrow>
      (\<exists>errs. errs \<noteq> [] \<and>
         post_users U E now fake_db body = (Inl (RequestValidationError errs), fake_db) \<and>
         400 \<le> status_code (RequestValidationError errs) \<and>
         status_code (RequestValidationError errs) < 500))
   \<and> length (snd (post_users U E now fake_db body)) =
        length fake_db + (if accepted U E body then 1 else 0)
   \<and> (length fake_db < length (snd (post_users U E now fake_db body)) \<longrightarrow> accepted U E body)"
proof -
  have a: "isl (username_must_be_alphanumeric U (username body)) \<or> isl (E (email body)) \<or>
      isl (password_must_be_strong U (password body)) \<or>
      isl (full_name_must_be_proper_format U (full_name body)) \<longrightarrow>
      (\<exists>errs. errs \<noteq> [] \<and>
         post_users U E now fake_db body = (Inl (RequestValidationError errs), fake_db) \<and>
         400 \<le> status_code (RequestValidationError errs) \<and>
         status_code (RequestValidationError errs) < 500)"
  proof
    assume "isl (username_must_be_alphanumeric U (username body)) \<or> isl (E (email body)) \<or>
      isl (password_must_be_strong U (password body)) \<or>
      isl (full_name_must_be_proper_format U (full_name body))"
    then have r: "\<not> accepted U E body" by (simp add: rejected_iff)
    show "\<exists>errs. errs \<noteq> [] \<and>
         post_users U E now fake_db body = (Inl (RequestValidationError errs), fake_db) \<and>
         400 \<le> status_code (RequestValidationError errs) \<and>
         status_code (RequestValidationError errs) < 500"
      using rejected_errors_nonempty[OF r] post_users_rejected[OF r, of now fake_db]
      by (intro exI[of _ "field_errors ''username'' (username_must_be_alphanumeric U (username body)) @
          field_errors ''email'' (E (email body)) @
          field_errors ''password'' (password_must_be_strong U (password body)) @
          field_errors ''full_name'' (full_name_must_be_proper_format U (full_name body))"]) simp
  qed
  have b: "length (snd (post_users U E now fake_db body)) =
        length fake_db + (if accepted U E body then 1 else 0)"
    by (rule length_post_users)
  have c: "length fake_db < length (snd (post_users U E now fake_db body)) \<longrightarrow> accepted U E body"
    unfolding b by (simp split: if_splits)
  from a b c show ?thesis by blast
qed

lemma weak_request_rejected:
  "isl (password_must_be_strong unicode_sample (password weak_request))"
  by (simp add: weak_request_def password_first_failure str_def)

theorem rejected_request_leaves_storage_witness:
  "\<exists>errs. errs \<noteq> [] \<and>
     post_users unicode_sample EmailStr_sample now_sample [db_record now_sample alice] weak_request =
       (Inl (RequestValidationError errs), [db_record now_sample alice]) \<and>
     400 \<le> status_code (RequestValidationError errs) \<and>
     status_code (RequestValidationError errs) < 500"
  by (rule mp [OF rejected_request_leaves_storage [THEN conjunct1]
        disjI2 [OF disjI2 [OF disjI1 [OF weak_request_rejected]]]])

lemma map_loc_field_errors: "map loc (field_errors l r) = (if isl r then [l] else [])"
  by (cases r) simp_all

lemma password_find_rule:
  "password_must_be_strong U v =
     (case find (\<lambda>r. \<not> satisfies r v) [MinLength, Uppercase, Lowercase, Digit, Special] of
        None \<Rightarrow> Inr v
      | Some r \<Rightarrow> Inl (ValueError (rule_message r)))"
  unfolding password_first_failure by simp

lemma weak_request_errors:
  "post_users unicode_sample EmailStr_sample now_sample []
      \<lparr>username = str ''a b'', email = str ''alice@example.com'', password = str ''weak'',
       full_name = None\<rparr> =
     (Inl (RequestValidationError
        [LineError ''username'' (ValueError ''Username must be alphanumeric (letters and numbers only)''),
         LineError ''password'' (ValueError ''Password must be at least 8 characters long'')]),
      [])"
proof -
  let ?b = "\<lparr>username = str ''a b'', email = str ''alice@example.com'', password = str ''weak'',
       full_name = None\<rparr>"
  have u: "username_must_be_alphanumeric unicode_sample (username ?b) =
      Inl (ValueError ''Username must be alphanumeric (letters and numbers only)'')"
    by (simp add: username_first_failure ev)
  have p: "password_must_be_strong unicode_sample (password ?b) =
      Inl (ValueError ''Password must be at least 8 characters long'')"
    by (simp add: password_first_failure str_def)
  have e: "EmailStr_sample (email ?b) = Inr (str ''alice@example.com'')"
    by (simp add: EmailStr_sample_def)
  have f: "full_name_must_be_proper_format unicode_sample (full_name ?b) = Inr None"
    by (simp add: full_name_must_be_proper_format_def)
  have r: "\<not> accepted unicode_sample EmailStr_sample ?b"
    unfolding accepted_def u by simp
  show ?thesis
    unfolding post_users_rejected[OF r] u p e f by simp
qed

text \<open>
  Claim C7 says that a request with violations in several fields gets the error of a
  single validator. The request below violates a rule of the username (a space) and a
  rule of the password (too short, and no uppercase letter, digit or special character):
  the answer carries one error for each of the two fields.
\<close>

theorem first_failure_only_counterexample:
  "post_users unicode_sample EmailStr_sample now_sample []
      \<lparr>username = str ''a b'', email = str ''alice@example.com'', password = str ''weak'',
       full_name = None\<rparr> =
     (Inl (RequestValidationError
        [LineError ''username'' (ValueError ''Username must be alphanumeric (letters and numbers only)''),
         LineError ''password'' (ValueError ''Password must be at least 8 characters long'')]),
      [])"
  by (rule weak_request_errors)

text \<open>
  Claim C7, amended. A rejected request is answered with one error for each rejected
  field, in the order username, email, password, full_name, each being the error that the
  validator of that field raised, and the storage is unchanged. Within a field only the
  first failing rule is reported: the password validator raises the message of the first
  rule, in the order length, uppercase, lowercase, digit, special character, that the
  password violates, and the validators of username and full name check the characters
  first, then the minimum and then the maximum length.
\<close>

theorem errors_one_per_rejected_field:
  "(post_users U E now fake_db body = (Inl (RequestValidationError errs), db') \<longrightarrow>
      db' = fake_db \<and> errs \<noteq> []
      \<and> errs = field_errors ''username'' (username_must_be_alphanumeric U (username body)) @
               field_errors ''email'' (E (email body)) @
               field_errors ''password'' (password_must_be_strong U (password body)) @
               field_errors ''full_name'' (full_name_must_be_proper_format U (full_name body))
      \<and> map loc errs = rejected_fields U E body)
   \<and> password_must_be_strong U v =
       (case find (\<lambda>r. \<not> satisfies r v) [MinLength, Uppercase, Lowercase, Digit, Special] of
          None \<Rightarrow> Inr v
        | Some r \<Rightarrow> Inl (ValueError (rule_message r)))
   \<and> username_must_be_alphanumeric U v =
       (if v = [] \<or> \<not> list_all (char_isalnum U) v then
          Inl (ValueError ''Username must be alphanumeric (letters and numbers only)'')
        else if length v < 3 then Inl (ValueError ''Username must be at least 3 characters long'')
        else if 20 < length v then Inl (ValueError ''Username must be at most 20 characters long'')
        else Inr v)
   \<and> full_name_must_be_proper_format U (Some s) =
       (if s = [] \<or> \<not> list_all (full_name_char U) s then
          Inl (ValueError ''Full name can only contain letters, spaces, hyphens, apostrophes, and periods'')
        else if length s < 2 then Inl (ValueError ''Full name must be at least 2 characters long'')
        else if 50 < length s then Inl (ValueError ''Full name must be at most 50 characters long'')
        else Inr (Some s))"
proof -
  let ?errs = "field_errors ''username'' (username_must_be_alphanumeric U (username body)) @
               field_errors ''email'' (E (email body)) @
               field_errors ''password'' (password_must_be_strong U (password body)) @
               field_errors ''full_name'' (full_name_must_be_proper_format U (full_name body))"
  have a: "post_users U E now fake_db body = (Inl (RequestValidationError errs), db') \<longrightarrow>
      db' = fake_db \<and> errs \<noteq> [] \<and> errs = ?errs \<and> map loc errs = rejected_fields U E body"
  proof
    assume h: "post_users U E now fake_db body = (Inl (RequestValidationError errs), db')"
    have r: "\<not> accepted U E body"
    proof
      assume acc: "accepted U E body"
      then obtain e where e: "E (email body) = Inr e"
        unfolding accepted_def by (cases "E (email body)") auto
      from post_users_accepted[OF acc e, of now fake_db] h show False
        by (cases "E e") simp_all
    qed
    from post_users_rejected[OF r, of now fake_db] h
    have d: "db' = fake_db" and eq: "errs = ?errs" by simp_all
    have ne: "errs \<noteq> []" unfolding eq by (rule rejected_errors_nonempty[OF r])
    have m: "map loc errs = rejected_fields U E body"
      unfolding eq rejected_fields_def by (simp add: map_loc_field_errors)
    from d ne eq m
    show "db' = fake_db \<and> errs \<noteq> [] \<and> errs = ?errs \<and> map loc errs = rejected_fields U E body"
      by blast
  qed
  from a password_find_rule[of U v] username_first_failure[of U v] full_name_first_failure[of U s]
  show ?thesis by blast
qed

theorem errors_one_per_rejected_field_witness:
  "map loc
     [LineError ''username'' (ValueError ''Username must be alphanumeric (letters and numbers only)''),
      LineError ''password'' (ValueError ''Password must be at least 8 characters long'')] =
   rejected_fields unicode_sample EmailStr_sample
     \<lparr>username = str ''a b'', email = str ''alice@example.com'', password = str ''weak'',
      full_name = None\<rparr>"
  using mp [OF errors_one_per_rejected_field [THEN conjunct1] weak_request_errors]
  by (elim conjE)

lemma rules_document_eq:
  "fst (get_validation_rules db) = (200, rules_document)"
  by (simp add: get_validation_rules_def rules_document_def)

lemma password_min_length:
  "(\<exists>c\<in>set v. upper_latin c) \<and> (\<exists>c\<in>set v. lower_latin c) \<and> (\<exists>c\<in>set v. decimal_digit c) \<and>
   (\<exists>c\<in>set v. special_char c) \<Longrightarrow> (password_must_be_strong U v = Inr v) = (8 \<le> length v)"
  by (auto simp: password_first_failure)

lemma password_requires:
  "\<not> (\<exists>c\<in>set v. upper_latin c) \<or> \<not> (\<exists>c\<in>set v. lower_latin c) \<or> \<not> (\<exists>c\<in>set v. decimal_digit c) \<or>
   \<not> (\<exists>c\<in>set v. special_char c) \<Longrightarrow> isl (password_must_be_strong U v)"
  by (auto simp: password_first_failure)

lemma username_alnum_only:
  "\<exists>c\<in>set v. \<not> char_isalnum U c \<Longrightarrow> isl (username_must_be_alphanumeric U v)"
  by (auto simp: username_first_failure list_all_iff)

lemma username_bounds:
  "\<forall>c\<in>set v. char_isalnum U c \<Longrightarrow>
     (username_must_be_alphanumeric U v = Inr v) = (3 \<le> length v \<and> length v \<le> 20)"
  by (simp add: username_accept_iff)

lemma full_name_bounds:
  "\<forall>c\<in>set s. full_name_char U c \<Longrightarrow>
     (full_name_must_be_proper_format U (Some s) = Inr (Some s)) = (2 \<le> length s \<and> length s \<le> 50)"
  unfolding full_name_first_failure by (auto simp: list_all_iff)

text \<open>
  Claim C8. \<open>get_validation_rules\<close> and \<open>root\<close> return the same document whatever
  the storage holds, and leave the storage as it is. The parameters of the rules document
  are those that the validators enforce: among the passwords with all four character
  classes exactly those of at least \<^verbatim>\<open>min_length\<close> characters are accepted, and a
  password without a required class is rejected; a username with a character that is not
  alphanumeric is rejected, and among the alphanumeric ones exactly those with a length
  between \<^verbatim>\<open>min_length\<close> and \<^verbatim>\<open>max_length\<close> are accepted; likewise for the full name,
  which may be absent. The entry \<^verbatim>\<open>allowed_characters\<close> is a fixed text.
\<close>

theorem validation_rules_static_and_consistent:
  "fst (get_validation_rules db) = fst (get_validation_rules db')
   \<and> snd (get_validation_rules db) = db
   \<and> fst (root db) = fst (root db')
   \<and> snd (root db) = db
   \<and> fst (get_validation_rules db) = (200, rules_document)
   \<and> (\<exists>n. param rules_document ''password_rules'' ''min_length'' = Some (JInt (int n)) \<and>
        (\<forall>v. (\<exists>c\<in>set v. upper_latin c) \<and> (\<exists>c\<in>set v. lower_latin c) \<and>
              (\<exists>c\<in>set v. decimal_digit c) \<and> (\<exists>c\<in>set v. special_char c) \<longrightarrow>
              (password_must_be_strong U v = Inr v) = (n \<le> length v)))
   \<and> param rules_document ''password_rules'' ''requires_uppercase'' =
        Some (JBool (\<forall>v. \<not> (\<exists>c\<in>set v. upper_latin c) \<longrightarrow> isl (password_must_be_strong U v)))
   \<and> param rules_document ''password_rules'' ''requires_lowercase'' =
        Some (JBool (\<forall>v. \<not> (\<exists>c\<in>set v. lower_latin c) \<longrightarrow> isl (password_must_be_strong U v)))
   \<and> param rules_document ''password_rules'' ''requires_number'' =
        Some (JBool (\<forall>v. \<not> (\<exists>c\<in>set v. decimal_digit c) \<longrightarrow> isl (password_must_be_strong U v)))
   \<and> param rules_document ''password_rules'' ''requires_special_char'' =
        Some (JBool (\<forall>v. \<not> (\<exists>c\<in>set v. special_char c) \<longrightarrow> isl (password_must_be_strong U v)))
   \<and> param rules_document ''username_rules'' ''alphanumeric_only'' =
        Some (JBool (\<forall>v. (\<exists>c\<in>set v. \<not> char_isalnum U c) \<longrightarrow> isl (username_must_be_alphanumeric U v)))
   \<and> (\<exists>lo hi. param rules_document ''username_rules'' ''min_length'' = Some (JInt (int lo)) \<and>
        param rules_document ''username_rules'' ''max_length'' = Some (JInt (int hi)) \<and>
        (\<forall>v. (\<forall>c\<in>set v. char_isalnum U c) \<longrightarrow>
              (username_must_be_alphanumeric U v = Inr v) = (lo \<le> length v \<and> length v \<le> hi)))
   \<and> (\<exists>lo hi. param rules_document ''full_name_rules'' ''min_length'' = Some (JInt (int lo)) \<and>
        param rules_document ''full_name_rules'' ''max_length'' = Some (JInt (int hi)) \<and>
        (\<forall>s. (\<forall>c\<in>set s. full_name_char U c) \<longrightarrow>
              (full_name_must_be_proper_format U (Some s) = Inr (Some s)) =
                (lo \<le> length s \<and> length s \<le> hi)))
   \<and> param rules_document ''full_name_rules'' ''optional'' =
        Some (JBool (full_name_must_be_proper_format U None = Inr None))
   \<and> param rules_document ''full_name_rules'' ''allowed_characters'' =
        Some (JStr (str ''letters, spaces, hyphens, apostrophes, periods''))"
proof -
  have p: "param rules_document ''password_rules'' ''min_length'' = Some (JInt (int 8))"
    "param rules_document ''password_rules'' ''requires_uppercase'' = Some (JBool True)"
    "param rules_document ''password_rules'' ''requires_lowercase'' = Some (JBool True)"
    "param rules_document ''password_rules'' ''requires_number'' = Some (JBool True)"
    "param rules_document ''password_rules'' ''requires_special_char'' = Some (JBool True)"
    "param rules_document ''username_rules'' ''alphanumeric_only'' = Some (JBool True)"
    "param rules_document ''username_rules'' ''min_length'' = Some (JInt (int 3))"
    "param rules_document ''username_rules'' ''max_length'' = Some (JInt (int 20))"
    "param rules_document ''full_name_rules'' ''min_length'' = Some (JInt (int 2))"
    "param rules_document ''full_name_rules'' ''max_length'' = Some (JInt (int 50))"
    "param rules_document ''full_name_rules'' ''optional'' = Some (JBool True)"
    "param rules_document ''full_name_rules'' ''allowed_characters'' =
        Some (JStr (str ''letters, spaces, hyphens, apostrophes, periods''))"
    by (simp_all add: param_def rules_document_def get_validation_rules_def)
  have s: "fst (get_validation_rules db) = fst (get_validation_rules db')"
    "snd (get_validation_rules db) = db" "fst (root db) = fst (root db')" "snd (root db) = db"
    "fst (get_validation_rules db) = (200, rules_document)"
    by (simp_all add: get_validation_rules_def root_def rules_document_def)
  have b1: "(\<forall>v. \<not> (\<exists>c\<in>set v. upper_latin c) \<longrightarrow> isl (password_must_be_strong U v)) = True"
    and b2: "(\<forall>v. \<not> (\<exists>c\<in>set v. lower_latin c) \<longrightarrow> isl (password_must_be_strong U v)) = True"
    and b3: "(\<forall>v. \<not> (\<exists>c\<in>set v. decimal_digit c) \<longrightarrow> isl (password_must_be_strong U v)) = True"
    and b4: "(\<forall>v. \<not> (\<exists>c\<in>set v. special_char c) \<longrightarrow> isl (password_must_be_strong U v)) = True"
    using password_requires[of _ U] by blast+
  have b5: "(\<forall>v. (\<exists>c\<in>set v. \<not> char_isalnum U c) \<longrightarrow> isl (username_must_be_alphanumeric U v)) = True"
    using username_alnum_only[of _ U] by blast
  have b6: "(full_name_must_be_proper_format U None = Inr None) = True"
    by (simp add: full_name_must_be_proper_format_def)
  have n1: "\<exists>n. param rules_document ''password_rules'' ''min_length'' = Some (JInt (int n)) \<and>
        (\<forall>v. (\<exists>c\<in>set v. upper_latin c) \<and> (\<exists>c\<in>set v. lower_latin c) \<and>
              (\<exists>c\<in>set v. decimal_digit c) \<and> (\<exists>c\<in>set v. special_char c) \<longrightarrow>
              (password_must_be_strong U v = Inr v) = (n \<le> length v))"
    using p(1) password_min_length[of _ U] by blast
  have n2: "\<exists>lo hi. param rules_document ''username_rules'' ''min_length'' = Some (JInt (int lo)) \<and>
        param rules_document ''username_rules'' ''max_length'' = Some (JInt (int hi)) \<and>
        (\<forall>v. (\<forall>c\<in>set v. char_isalnum U c) \<longrightarrow>
              (username_must_be_alphanumeric U v = Inr v) = (lo \<le> length v \<and> length v \<le> hi))"
    using p(7,8) username_bounds[of _ U] by blast
  have n3: "\<exists>lo hi. param rules_document ''full_name_rules'' ''min_length'' = Some (JInt (int lo)) \<and>
        param rules_document ''full_name_rules'' ''max_length'' = Some (JInt (int hi)) \<and>
        (\<forall>s. (\<forall>c\<in>set s. full_name_char U c) \<longrightarrow>
              (full_name_must_be_proper_format U (Some s) = Inr (Some s)) =
                (lo \<le> length s \<and> length s \<le> hi))"
    using p(9,10) full_name_bounds[of _ U] by blast
  show ?thesis
    unfolding b1 b2 b3 b4 b5 b6
    using s p(2-6) p(11,12) n1 n2 n3 by (intro conjI) assumption+
qed

theorem validation_rules_static_and_consistent_witness:
  "password_must_be_strong unicode_sample (str ''Str0ng!P'') = Inr (str ''Str0ng!P'')
   \<and> password_must_be_strong unicode_sample (str ''Str0ng!'') \<noteq> Inr (str ''Str0ng!'')
   \<and> fst (get_validation_rules [db_record now_sample alice]) = fst (get_validation_rules [])"
proof -
  note t = validation_rules_static_and_consistent
    [of "[db_record now_sample alice]" "[]" unicode_sample]
  from t obtain n where
    n: "param rules_document ''password_rules'' ''min_length'' = Some (JInt (int n))" and
    h: "\<forall>v. (\<exists>c\<in>set v. upper_latin c) \<and> (\<exists>c\<in>set v. lower_latin c) \<and>
              (\<exists>c\<in>set v. decimal_digit c) \<and> (\<exists>c\<in>set v. special_char c) \<longrightarrow>
              (password_must_be_strong unicode_sample v = Inr v) = (n \<le> length v)"
    by blast
  have "param rules_document ''password_rules'' ''min_length'' = Some (JInt 8)"
    by (simp add: param_def rules_document_def get_validation_rules_def)
  with n have n8: "n = 8" by simp
  have c8: "(\<exists>c\<in>set (str ''Str0ng!P''). upper_latin c) \<and> (\<exists>c\<in>set (str ''Str0ng!P''). lower_latin c) \<and>
      (\<exists>c\<in>set (str ''Str0ng!P''). decimal_digit c) \<and> (\<exists>c\<in>set (str ''Str0ng!P''). special_char c)"
    by (simp add: ev)
  have c7: "(\<exists>c\<in>set (str ''Str0ng!''). upper_latin c) \<and> (\<exists>c\<in>set (str ''Str0ng!''). lower_latin c) \<and>
      (\<exists>c\<in>set (str ''Str0ng!''). decimal_digit c) \<and> (\<exists>c\<in>set (str ''Str0ng!''). special_char c)"
    by (simp add: ev)
  have l8: "8 \<le> length (str ''Str0ng!P'')" by (simp add: str_def)
  have l7: "\<not> 8 \<le> length (str ''Str0ng!'')" by (simp add: str_def)
  from h[rule_format, OF c8] l8 n8
  have a: "password_must_be_strong unicode_sample (str ''Str0ng!P'') = Inr (str ''Str0ng!P'')"
    by blast
  from h[rule_format, OF c7] l7 n8
  have b: "password_must_be_strong unicode_sample (str ''Str0ng!'') \<noteq> Inr (str ''Str0ng!'')"
    by blast
  from t have c: "fst (get_validation_rules [db_record now_sample alice]) = fst (get_validation_rules [])"
    by (rule conjunct1)
  from a b c show ?thesis by blast
qed

end
